theory Spec2Isabelle
  imports Complex_Main "HOL-Library.Sublist" "HOL-Library.AList"
begin

section \<open>Record model\<close>

text \<open>
  The rows the components receive are votes joined with their agenda item, that item's
  meeting and the voting council member (the \<^verbatim>\<open>VoteRecord\<close> type of
  \<^verbatim>\<open>components/votes/VotesAnalysis.tsx\<close>, lines 8-26).  Every component reads
  the joined parts through optional chaining (\<^verbatim>\<open>vote.agenda_items?.title\<close>), so a
  join or a column may be \<^verbatim>\<open>null\<close>/\<^verbatim>\<open>undefined\<close> at run time: each of them
  is an \<open>option\<close> here, \<open>None\<close> standing for \<^verbatim>\<open>null\<close> and \<^verbatim>\<open>undefined\<close>
  alike.  The fields of the nested objects carry a prefix (\<open>ai_\<close>, \<open>cm_\<close>, \<open>m_\<close>),
  since \<^verbatim>\<open>title\<close> and \<^verbatim>\<open>category\<close> occur in several of them.
\<close>

datatype vote_value = YEA | NAY | ABSTAIN | ABSENT

fun vote_value_str :: "vote_value \<Rightarrow> string" where
  "vote_value_str YEA = ''YEA''"
| "vote_value_str NAY = ''NAY''"
| "vote_value_str ABSTAIN = ''ABSTAIN''"
| "vote_value_str ABSENT = ''ABSENT''"

record meeting =
  m_date :: "string option"
  m_title :: "string option"

record agenda_item =
  ai_title :: "string option"
  ai_category :: "string option"
  ai_tags :: "string list option"
  ai_meetings :: "meeting option"

record council_member =
  cm_name :: "string option"
  cm_title :: "string option"

record VoteRecord =
  vote_id :: string
  vote_value :: vote_value
  created_at :: "string option"
  agenda_items :: "agenda_item option"
  council_members :: "council_member option"

text \<open>The optional chains \<^verbatim>\<open>vote.agenda_items?.title\<close>, \<^verbatim>\<open>vote.agenda_items?.category\<close>,
  \<^verbatim>\<open>vote.agenda_items?.tags\<close>, \<^verbatim>\<open>vote.agenda_items?.meetings?.date\<close>,
  \<^verbatim>\<open>vote.council_members?.name\<close> and \<^verbatim>\<open>vote.council_members?.title\<close>.\<close>

definition agenda_title :: "VoteRecord \<Rightarrow> string option" where
  "agenda_title vote = (case agenda_items vote of None \<Rightarrow> None | Some a \<Rightarrow> ai_title a)"

definition agenda_category :: "VoteRecord \<Rightarrow> string option" where
  "agenda_category vote = (case agenda_items vote of None \<Rightarrow> None | Some a \<Rightarrow> ai_category a)"

definition agenda_tags :: "VoteRecord \<Rightarrow> string list option" where
  "agenda_tags vote = (case agenda_items vote of None \<Rightarrow> None | Some a \<Rightarrow> ai_tags a)"

definition agenda_date :: "VoteRecord \<Rightarrow> string option" where
  "agenda_date vote =
     (case agenda_items vote of None \<Rightarrow> None
      | Some a \<Rightarrow> (case ai_meetings a of None \<Rightarrow> None | Some m \<Rightarrow> m_date m))"

definition member_name :: "VoteRecord \<Rightarrow> string option" where
  "member_name vote = (case council_members vote of None \<Rightarrow> None | Some m \<Rightarrow> cm_name m)"

definition member_title :: "VoteRecord \<Rightarrow> string option" where
  "member_title vote = (case council_members vote of None \<Rightarrow> None | Some m \<Rightarrow> cm_title m)"

text \<open>\<^verbatim>\<open>x || d\<close> on a string that may be missing: \<^verbatim>\<open>null\<close>, \<^verbatim>\<open>undefined\<close> and the
  empty string are falsy and give the default.\<close>

definition or_default :: "string option \<Rightarrow> string \<Rightarrow> string" where
  "or_default x d = (case x of None \<Rightarrow> d | Some s \<Rightarrow> if s = [] then d else s)"

section \<open>Strings\<close>

text \<open>
  A string is the sequence of its bytes in UTF-8, so that the literals of the code and
  any text of the database are strings; one well-formed string occurs inside another as
  bytes exactly when it does as characters.  \<open>includes_str s sub\<close> is
  \<^verbatim>\<open>s.includes(sub)\<close>: \<open>sub\<close> occurs in \<open>s\<close> as a contiguous block.

  \<^verbatim>\<open>String.prototype.toLowerCase\<close> is a built-in of the language, not code of the
  repository, and depends on the Unicode case tables.  Every definition that calls it
  takes it as its first parameter \<open>toLowerCase\<close>, and every property is proved for all
  values of this parameter, hence for the built-in on all text.
\<close>

fun includes_str :: "string \<Rightarrow> string \<Rightarrow> bool" where
  "includes_str [] sub = (sub = [])"
| "includes_str (c # s) sub = (prefix sub (c # s) \<or> includes_str s sub)"

text \<open>\<^verbatim>\<open>x?.toLowerCase().includes(needle)\<close>: a missing \<open>x\<close> short-circuits the chain to
  \<^verbatim>\<open>undefined\<close>, which a filter callback reads as false.\<close>

definition lower_includes :: "(string \<Rightarrow> string) \<Rightarrow> string option \<Rightarrow> string \<Rightarrow> bool" where
  "lower_includes toLowerCase x needle =
     (case x of None \<Rightarrow> False | Some s \<Rightarrow> includes_str (toLowerCase s) needle)"

section \<open>Filter engine\<close>

text \<open>The \<^verbatim>\<open>filters\<close> prop of \<^verbatim>\<open>VotesAnalysis\<close> and \<^verbatim>\<open>VotesKPIs\<close>: four
  strings, the empty string meaning that the dimension is not constrained.\<close>

record filters =
  search :: string
  category :: string
  member :: string
  voteValue :: string

text \<open>The parameter default of \<^verbatim>\<open>VotesAnalysis\<close> (line 37): a missing prop is the
  all-empty criteria.\<close>

definition no_filters :: filters where
  "no_filters = \<lparr>search = [], category = [], member = [], voteValue = []\<rparr>"

definition VotesAnalysis_filters :: "filters option \<Rightarrow> filters" where
  "VotesAnalysis_filters prop = (case prop of None \<Rightarrow> no_filters | Some f \<Rightarrow> f)"

text \<open>The four callbacks passed to \<^verbatim>\<open>Array.prototype.filter\<close> in \<^verbatim>\<open>applyFilters\<close>
  (\<^verbatim>\<open>VotesAnalysis.tsx\<close>, lines 95-100, 105-107, 112-114, 119-121).\<close>

definition search_cb :: "(string \<Rightarrow> string) \<Rightarrow> string \<Rightarrow> VoteRecord \<Rightarrow> bool" where
  "search_cb toLowerCase searchLower vote =
     (lower_includes toLowerCase (agenda_title vote) searchLower \<or>
      lower_includes toLowerCase (member_name vote) searchLower \<or>
      lower_includes toLowerCase (agenda_category vote) searchLower \<or>
      (case agenda_tags vote of
         None \<Rightarrow> False
       | Some ts \<Rightarrow> list_ex (\<lambda>tag. includes_str (toLowerCase tag) searchLower) ts))"

definition category_cb :: "(string \<Rightarrow> string) \<Rightarrow> string \<Rightarrow> VoteRecord \<Rightarrow> bool" where
  "category_cb toLowerCase cat vote =
     (case agenda_category vote of
        None \<Rightarrow> False
      | Some c \<Rightarrow> toLowerCase c = toLowerCase cat)"

definition member_cb :: "(string \<Rightarrow> string) \<Rightarrow> string \<Rightarrow> VoteRecord \<Rightarrow> bool" where
  "member_cb toLowerCase mem vote =
     lower_includes toLowerCase (member_name vote) (toLowerCase mem)"

definition voteValue_cb :: "string \<Rightarrow> VoteRecord \<Rightarrow> bool" where
  "voteValue_cb val vote = (vote_value_str (vote_value vote) = val)"

text \<open>\<^verbatim>\<open>applyFilters\<close> (\<^verbatim>\<open>VotesAnalysis.tsx\<close>, lines 89-125): a copy of the list is
  narrowed by each non-empty criterion in turn.  The result is the value handed to
  \<^verbatim>\<open>setVotes\<close>.\<close>

definition applyFilters ::
  "(string \<Rightarrow> string) \<Rightarrow> filters \<Rightarrow> VoteRecord list \<Rightarrow> VoteRecord list" where
  "applyFilters toLowerCase fs allVotes =
     (let filteredData = allVotes;
          filteredData =
            (if search fs \<noteq> []
             then filter (search_cb toLowerCase (toLowerCase (search fs))) filteredData
             else filteredData);
          filteredData =
            (if category fs \<noteq> [] then filter (category_cb toLowerCase (category fs)) filteredData
             else filteredData);
          filteredData =
            (if member fs \<noteq> [] then filter (member_cb toLowerCase (member fs)) filteredData
             else filteredData);
          filteredData =
            (if voteValue fs \<noteq> [] then filter (voteValue_cb (voteValue fs)) filteredData
             else filteredData)
      in filteredData)"

definition VotesAnalysis_votes ::
  "(string \<Rightarrow> string) \<Rightarrow> filters option \<Rightarrow> VoteRecord list \<Rightarrow> VoteRecord list" where
  "VotesAnalysis_votes toLowerCase prop allVotes =
     applyFilters toLowerCase (VotesAnalysis_filters prop) allVotes"

section \<open>Aggregation engine\<close>

text \<open>
  The object \<^verbatim>\<open>{ total, yea, nay, abstain }\<close>: the \<^verbatim>\<open>stats\<close> state of
  \<^verbatim>\<open>VotesKPIs\<close>, the first four fields of \<^verbatim>\<open>VoteStats\<close> in the member profile
  and each entry of its \<^verbatim>\<open>categories\<close>.  No component keeps a count of the
  \<^verbatim>\<open>ABSENT\<close> votes.  (\<open>total\<close> is a constant of HOL, hence \<open>total_n\<close>.)
\<close>

record tally =
  total_n :: nat
  yea :: nat
  nay :: nat
  abstain :: nat

text \<open>\<^verbatim>\<open>data || []\<close>: a missing query result is the empty list.\<close>

definition or_empty :: "'a list option \<Rightarrow> 'a list" where
  "or_empty data = (case data of None \<Rightarrow> [] | Some rows \<Rightarrow> rows)"

text \<open>The statistics of \<^verbatim>\<open>fetchStats\<close> (\<^verbatim>\<open>VotesKPIs.tsx\<close>, lines 86-91); the
  member profile (\<^verbatim>\<open>fetchMemberData\<close>, lines 116-119) and the member list
  (\<^verbatim>\<open>MembersList.tsx\<close>, lines 88-91) compute the same four numbers.\<close>

definition tallyVotes :: "VoteRecord list \<Rightarrow> tally" where
  "tallyVotes votes =
     \<lparr>total_n = length votes,
      yea = length (filter (\<lambda>v. vote_value_str (vote_value v) = ''YEA'') votes),
      nay = length (filter (\<lambda>v. vote_value_str (vote_value v) = ''NAY'') votes),
      abstain = length (filter (\<lambda>v. vote_value_str (vote_value v) = ''ABSTAIN'') votes)\<rparr>"

text \<open>\<^verbatim>\<open>fetchStats\<close> (\<^verbatim>\<open>VotesKPIs.tsx\<close>, lines 29-97) on the rows the query returned:
  lines 53-83 repeat the four filter blocks of \<open>applyFilters\<close> word for word, then the
  statistics are taken of what is left.\<close>

definition fetchStats ::
  "(string \<Rightarrow> string) \<Rightarrow> filters \<Rightarrow> VoteRecord list option \<Rightarrow> tally" where
  "fetchStats toLowerCase fs allVotes =
     tallyVotes (applyFilters toLowerCase fs (or_empty allVotes))"

subsection \<open>Plain objects used as dictionaries\<close>

text \<open>
  \<^verbatim>\<open>categories\<close> in the member profile and \<^verbatim>\<open>groups\<close> in the case studies are
  object literals \<^verbatim>\<open>{}\<close> indexed by a string taken from the data.  Their own
  properties are an association list in insertion order.  A lookup \<^verbatim>\<open>obj[key]\<close> also
  finds what \<^verbatim>\<open>Object.prototype\<close> provides: for the names below it yields a function
  (for \<^verbatim>\<open>__proto__\<close> the prototype object itself), which is truthy, although the
  object has no own property of that name.
\<close>

definition prototype_keys :: "string list" where
  "prototype_keys =
     [''constructor'', ''__defineGetter__'', ''__defineSetter__'', ''hasOwnProperty'',
      ''__lookupGetter__'', ''__lookupSetter__'', ''isPrototypeOf'', ''propertyIsEnumerable'',
      ''toString'', ''valueOf'', ''__proto__'', ''toLocaleString'']"

subsection \<open>Category breakdown of the member profile\<close>

definition zero_tally :: tally where
  "zero_tally = \<lparr>total_n = 0, yea = 0, nay = 0, abstain = 0\<rparr>"

text \<open>\<^verbatim>\<open>entry.total++; entry[vote.vote_value.toLowerCase()]++\<close> (lines 129-130).  For an
  \<^verbatim>\<open>ABSENT\<close> vote the second increment creates a property \<^verbatim>\<open>absent\<close>, which is
  none of the four counts.\<close>

fun count_vote :: "vote_value \<Rightarrow> tally \<Rightarrow> tally" where
  "count_vote YEA t = t\<lparr>total_n := total_n t + 1, yea := yea t + 1\<rparr>"
| "count_vote NAY t = t\<lparr>total_n := total_n t + 1, nay := nay t + 1\<rparr>"
| "count_vote ABSTAIN t = t\<lparr>total_n := total_n t + 1, abstain := abstain t + 1\<rparr>"
| "count_vote ABSENT t = t\<lparr>total_n := total_n t + 1\<rparr>"

text \<open>The body of the \<^verbatim>\<open>forEach\<close> (lines 124-131).  When the label is a name found on
  the prototype, \<^verbatim>\<open>!categories[category]\<close> is false, no entry is created, and the two
  increments land on the inherited function: \<open>categories\<close> keeps its own properties.\<close>

definition categoryStep :: "(string \<times> tally) list \<Rightarrow> VoteRecord \<Rightarrow> (string \<times> tally) list" where
  "categoryStep categories vote =
     (let category = or_default (agenda_category vote) ''Unknown'' in
      if category \<in> set prototype_keys then categories
      else
        let categories =
              (if map_of categories category = None
               then AList.update category zero_tally categories
               else categories)
        in AList.map_entry category (count_vote (vote_value vote)) categories)"

definition categoryBreakdown :: "VoteRecord list \<Rightarrow> (string \<times> tally) list" where
  "categoryBreakdown votesData = foldl categoryStep [] votesData"

text \<open>The \<^verbatim>\<open>stats\<close> that \<^verbatim>\<open>fetchMemberData\<close> stores (lines 115-133).\<close>

record VoteStats = tally +
  categories :: "(string \<times> tally) list"

definition fetchMemberData :: "VoteRecord list option \<Rightarrow> VoteStats" where
  "fetchMemberData votesData =
     (let t = tallyVotes (or_empty votesData) in
      \<lparr>total_n = total_n t, yea = yea t, nay = nay t, abstain = abstain t,
       categories = categoryBreakdown (or_empty votesData)\<rparr>)"

subsection \<open>Percentages\<close>

text \<open>
  JavaScript numbers are IEEE 754 binary64 values.  A rational number stands for the
  exact value of such a number.  Counts are integers below \<open>2 ^ 53\<close> and are
  represented exactly; a quotient and a product are the exact results rounded to the
  nearest binary64 value, ties to the even significand (\<open>binary64\<close>).  A value \<open>q\<close>
  with \<open>2 ^ e \<le> \<bar>q\<bar> < 2 ^ (e + 1)\<close> is rounded to a multiple of \<open>2 ^ (e - 52)\<close>.
  Overflow and subnormal numbers do not arise for ratios of counts and are not modelled.
\<close>

function bit_length :: "int \<Rightarrow> int" where
  "bit_length n = (if n \<le> 0 then 0 else 1 + bit_length (n div 2))"
  by auto
termination
  by (relation "measure nat") auto

definition exponent :: "rat \<Rightarrow> int" where
  "exponent q =
     (let (n, d) = quotient_of q;
          k = bit_length n - bit_length d
      in if 2 powi k \<le> q then k else k - 1)"

definition round_even :: "rat \<Rightarrow> int" where
  "round_even m =
     (let f = \<lfloor>m\<rfloor>; r = m - of_int f
      in if r < 1 / 2 then f else if 1 / 2 < r then f + 1 else if even f then f else f + 1)"

definition binary64 :: "rat \<Rightarrow> rat" where
  "binary64 q =
     (if q = 0 then 0
      else let u = 2 powi (exponent \<bar>q\<bar> - 52)
           in sgn q * of_int (round_even (\<bar>q\<bar> / u)) * u)"

text \<open>\<^verbatim>\<open>Math.round\<close>: the nearest integer, a tie going up.\<close>

definition Math_round :: "rat \<Rightarrow> int" where
  "Math_round x = \<lfloor>x + 1 / 2\<rfloor>"

text \<open>\<^verbatim>\<open>Math.round((count / whole) * 100)\<close>, the expression of every percentage in the
  repository.  Every use is guarded by \<^verbatim>\<open>total > 0\<close>, as in \<open>approvalRate\<close> below;
  for \<open>whole = 0\<close>, where JavaScript has \<^verbatim>\<open>NaN\<close> or \<^verbatim>\<open>Infinity\<close>, the value
  of \<open>percentage\<close> means nothing.\<close>

definition percentage :: "nat \<Rightarrow> nat \<Rightarrow> int" where
  "percentage count whole =
     Math_round (binary64 (binary64 (of_nat count / of_nat whole) * 100))"

text \<open>\<^verbatim>\<open>approvalRate\<close> of the member profile (line 150); the rate of a category
  (lines 240-242) is the same expression on an entry of \<^verbatim>\<open>categories\<close>.\<close>

definition approvalRate :: "'a tally_scheme \<Rightarrow> int" where
  "approvalRate stats =
     (if total_n stats > 0 then percentage (yea stats) (total_n stats) else 0)"

text \<open>The \<^verbatim>\<open>voting_stats\<close> of a member in \<^verbatim>\<open>MembersList.tsx\<close> (lines 88-92 and
  107-114).\<close>

record voting_stats =
  total_votes :: nat
  yea_votes :: nat
  nay_votes :: nat
  abstain_votes :: nat
  yea_percentage :: int
  voting_frequency :: nat

definition memberVotingStats :: "VoteRecord list option \<Rightarrow> voting_stats" where
  "memberVotingStats votesData =
     (let votes = or_empty votesData;
          totalVotes = length votes;
          yeaVotes = length (filter (\<lambda>v. vote_value_str (vote_value v) = ''YEA'') votes);
          nayVotes = length (filter (\<lambda>v. vote_value_str (vote_value v) = ''NAY'') votes);
          abstainVotes = length (filter (\<lambda>v. vote_value_str (vote_value v) = ''ABSTAIN'') votes);
          yeaPercentage = (if totalVotes > 0 then percentage yeaVotes totalVotes else 0)
      in \<lparr>total_votes = totalVotes, yea_votes = yeaVotes, nay_votes = nayVotes,
          abstain_votes = abstainVotes, yea_percentage = yeaPercentage,
          voting_frequency = totalVotes\<rparr>)"

section \<open>Case-study grouping\<close>

text \<open>One pushed vote, one group and one case study of \<^verbatim>\<open>fetchCaseStudies\<close>
  (\<^verbatim>\<open>CaseStudiesList\<close>, lines 58-94).  The \<^verbatim>\<open>description\<close> of a case study, a
  sentence rendered from the title and the number of votes, is left out.\<close>

record group_vote =
  gv_member_name :: string
  gv_vote_value :: vote_value
  gv_title :: string

record vote_group =
  g_title :: string
  g_category :: string
  g_date :: "string option"
  g_tags :: "string list"
  g_votes :: "group_vote list"

record CaseStudy =
  cs_id :: string
  cs_title :: string
  cs_category :: string
  cs_date :: "string option"
  outcome :: string
  impact_level :: string
  cs_votes :: "group_vote list"
  cs_tags :: "string list"

datatype js_error = TypeError

definition group_key :: "VoteRecord \<Rightarrow> string" where
  "group_key vote = or_default (agenda_title vote) ''Unknown''"

definition new_group :: "VoteRecord \<Rightarrow> vote_group" where
  "new_group vote =
     \<lparr>g_title = group_key vote,
      g_category = or_default (agenda_category vote) ''General'',
      g_date = (case agenda_date vote of
                  None \<Rightarrow> created_at vote
                | Some d \<Rightarrow> if d = [] then created_at vote else Some d),
      g_tags = (case agenda_tags vote of None \<Rightarrow> [] | Some ts \<Rightarrow> ts),
      g_votes = []\<rparr>"

definition pushed_vote :: "VoteRecord \<Rightarrow> group_vote" where
  "pushed_vote vote =
     \<lparr>gv_member_name = or_default (member_name vote) ''Unknown'',
      gv_vote_value = vote_value vote,
      gv_title = or_default (member_title vote) []\<rparr>"

text \<open>The reducer (lines 58-75).  When the title is a name found on the prototype,
  \<^verbatim>\<open>groups[agendaTitle]\<close> is the inherited function, which has no \<^verbatim>\<open>votes\<close>, and
  \<^verbatim>\<open>.votes.push\<close> throws a \<^verbatim>\<open>TypeError\<close>.\<close>

definition groupStep :: "(string \<times> vote_group) list \<Rightarrow> VoteRecord \<Rightarrow> js_error + (string \<times> vote_group) list" where
  "groupStep groups vote =
     (let agendaTitle = group_key vote in
      if agendaTitle \<in> set prototype_keys then Inl TypeError
      else
        let groups =
              (if map_of groups agendaTitle = None
               then AList.update agendaTitle (new_group vote) groups
               else groups)
        in Inr (AList.map_entry agendaTitle
                  (\<lambda>g. g\<lparr>g_votes := g_votes g @ [pushed_vote vote]\<rparr>) groups))"

fun groupVotes :: "(string \<times> vote_group) list \<Rightarrow> VoteRecord list \<Rightarrow> js_error + (string \<times> vote_group) list" where
  "groupVotes groups [] = Inr groups"
| "groupVotes groups (vote # votes) =
     (case groupStep groups vote of
        Inl e \<Rightarrow> Inl e
      | Inr groups' \<Rightarrow> groupVotes groups' votes)"

text \<open>The callback of \<^verbatim>\<open>.map\<close> (lines 78-94).  JavaScript numbers: the comparison
  \<^verbatim>\<open>yeaVotes > totalVotes / 2\<close> is between a count and a half-integer, both exact.\<close>

definition toStudy :: "vote_group \<Rightarrow> CaseStudy" where
  "toStudy g =
     (let yeaVotes = length (filter (\<lambda>v. vote_value_str (gv_vote_value v) = ''YEA'') (g_votes g));
          totalVotes = length (g_votes g);
          outcome_v = (if real yeaVotes > real totalVotes / 2 then ''Approved'' else ''Denied'')
      in \<lparr>cs_id = g_title g, cs_title = g_title g, cs_category = g_category g,
          cs_date = g_date g, outcome = outcome_v,
          impact_level = (if totalVotes \<ge> 7 then ''high''
                          else if totalVotes \<ge> 5 then ''medium'' else ''low''),
          cs_votes = g_votes g, cs_tags = g_tags g\<rparr>)"

text \<open>The case studies built from the rows of the query, before the first six are
  taken: one per group.  \<^verbatim>\<open>Object.values\<close> lists groups in insertion order, except
  that titles which are array indices come first; the properties below are about each
  study, not about positions.  A thrown error is caught by \<^verbatim>\<open>fetchCaseStudies\<close> and
  no case study is set.\<close>

definition studies :: "VoteRecord list option \<Rightarrow> js_error + CaseStudy list" where
  "studies votesData =
     (case groupVotes [] (or_empty votesData) of
        Inl e \<Rightarrow> Inl e
      | Inr groups \<Rightarrow> Inr (map (\<lambda>(k, g). toStudy g) groups))"

section \<open>Member list and vote list\<close>

text \<open>The recent votes of a member (\<^verbatim>\<open>MembersList.tsx\<close>, lines 95-103) and the title
  shown for a vote (\<^verbatim>\<open>VotesAnalysis.tsx\<close>, line 222).\<close>

record recent_vote =
  rv_id :: string
  rv_vote_value :: vote_value
  agenda_item_title :: string
  rv_date :: string
  rv_category :: string

definition recentVotes :: "VoteRecord list option \<Rightarrow> recent_vote list" where
  "recentVotes votesData =
     map (\<lambda>vote.
           \<lparr>rv_id = vote_id vote,
            rv_vote_value = vote_value vote,
            agenda_item_title = or_default (agenda_title vote) ''Unknown'',
            rv_date = or_default (agenda_date vote) ''Unknown'',
            rv_category = or_default (agenda_category vote) ''General''\<rparr>)
         (take 5 (or_empty votesData))"

definition shown_title :: "VoteRecord \<Rightarrow> string" where
  "shown_title vote = or_default (agenda_title vote) ''Unknown Agenda Item''"

section \<open>The contracts in the specification's words, and example data\<close>

subsection \<open>The filter contract\<close>

text \<open>
  A second description of the filter, following the specification rather than the code:
  a record is kept iff it passes every supplied (non-empty) criterion.  Two strings are
  equal ignoring case when the built-in \<open>toLowerCase\<close> gives the same for both, and
  one contains the other ignoring case when the lower-cased one splits around the
  lower-cased other; "contains" is stated with this explicit split, not by the recursion
  of \<open>includes_str\<close>.  A field that is missing contains nothing and equals nothing.
\<close>

definition ci_contains :: "(string \<Rightarrow> string) \<Rightarrow> string \<Rightarrow> string \<Rightarrow> bool" where
  "ci_contains toLowerCase hay needle =
     (\<exists>pre post. toLowerCase hay = pre @ toLowerCase needle @ post)"

definition ci_equal :: "(string \<Rightarrow> string) \<Rightarrow> string \<Rightarrow> string \<Rightarrow> bool" where
  "ci_equal toLowerCase a b = (toLowerCase a = toLowerCase b)"

definition search_fields :: "VoteRecord \<Rightarrow> string set" where
  "search_fields vote =
     set_option (agenda_title vote) \<union> set_option (member_name vote) \<union>
     set_option (agenda_category vote) \<union>
     (case agenda_tags vote of None \<Rightarrow> {} | Some ts \<Rightarrow> set ts)"

definition spec_search :: "(string \<Rightarrow> string) \<Rightarrow> string \<Rightarrow> VoteRecord \<Rightarrow> bool" where
  "spec_search toLowerCase s vote =
     (\<exists>field \<in> search_fields vote. ci_contains toLowerCase field s)"

definition spec_category :: "(string \<Rightarrow> string) \<Rightarrow> string \<Rightarrow> VoteRecord \<Rightarrow> bool" where
  "spec_category toLowerCase c vote =
     (\<exists>cat. agenda_category vote = Some cat \<and> ci_equal toLowerCase cat c)"

definition spec_member :: "(string \<Rightarrow> string) \<Rightarrow> string \<Rightarrow> VoteRecord \<Rightarrow> bool" where
  "spec_member toLowerCase m vote =
     (\<exists>n. member_name vote = Some n \<and> ci_contains toLowerCase n m)"

definition spec_outcome :: "string \<Rightarrow> VoteRecord \<Rightarrow> bool" where
  "spec_outcome wanted vote = (vote_value_str (vote_value vote) = wanted)"

definition spec_keeps :: "(string \<Rightarrow> string) \<Rightarrow> filters \<Rightarrow> VoteRecord \<Rightarrow> bool" where
  "spec_keeps toLowerCase fs vote =
     ((search fs \<noteq> [] \<longrightarrow> spec_search toLowerCase (search fs) vote) \<and>
      (category fs \<noteq> [] \<longrightarrow> spec_category toLowerCase (category fs) vote) \<and>
      (member fs \<noteq> [] \<longrightarrow> spec_member toLowerCase (member fs) vote) \<and>
      (voteValue fs \<noteq> [] \<longrightarrow> spec_outcome (voteValue fs) vote))"

text \<open>Criteria that constrain one chosen dimension, for stating how filters compose.\<close>

datatype dimension = Search | Category | Member | Outcome

fun set_dimension :: "dimension \<Rightarrow> string \<Rightarrow> filters \<Rightarrow> filters" where
  "set_dimension Search s fs = fs\<lparr>search := s\<rparr>"
| "set_dimension Category s fs = fs\<lparr>category := s\<rparr>"
| "set_dimension Member s fs = fs\<lparr>member := s\<rparr>"
| "set_dimension Outcome s fs = fs\<lparr>voteValue := s\<rparr>"

definition only :: "dimension \<Rightarrow> string \<Rightarrow> filters" where
  "only d s = set_dimension d s no_filters"

definition both :: "dimension \<Rightarrow> string \<Rightarrow> dimension \<Rightarrow> string \<Rightarrow> filters" where
  "both d1 s1 d2 s2 = set_dimension d2 s2 (set_dimension d1 s1 no_filters)"

subsection \<open>Lower-casing of ASCII text\<close>

text \<open>
  On a string of ASCII characters the built-in \<^verbatim>\<open>toLowerCase\<close> replaces the letters
  A to Z by a to z and leaves every other character as it is.  \<open>toLowerCase_ascii\<close>
  does this; it stands in for the parameter \<open>toLowerCase\<close> where a property is
  evaluated on example records, all of whose text is ASCII.  No definition of the
  components and no general property refers to it.
\<close>

definition letter_pairs :: "(char \<times> char) list" where
  "letter_pairs = zip ''ABCDEFGHIJKLMNOPQRSTUVWXYZ'' ''abcdefghijklmnopqrstuvwxyz''"

definition toLowerChar_ascii :: "char \<Rightarrow> char" where
  "toLowerChar_ascii c = (case map_of letter_pairs c of Some l \<Rightarrow> l | None \<Rightarrow> c)"

definition toLowerCase_ascii :: "string \<Rightarrow> string" where
  "toLowerCase_ascii s = map toLowerChar_ascii s"





subsection \<open>Example records\<close>

text \<open>The three records of the specification's Scenario B, a record whose agenda-item
  join is missing, and one whose agenda item has no category.\<close>

definition rec_housing :: VoteRecord where
  "rec_housing =
     \<lparr>vote_id = ''v1'', vote_value = YEA, created_at = Some ''2024-03-03'',
      agenda_items = Some \<lparr>ai_title = Some ''Zoning update'', ai_category = Some ''Housing'',
        ai_tags = Some [], ai_meetings = Some \<lparr>m_date = Some ''2024-03-01'', m_title = None\<rparr>\<rparr>,
      council_members = Some \<lparr>cm_name = Some ''Jane Doe'', cm_title = Some ''Mayor''\<rparr>\<rparr>"

definition rec_tagged :: VoteRecord where
  "rec_tagged =
     \<lparr>vote_id = ''v2'', vote_value = NAY, created_at = Some ''2024-03-02'',
      agenda_items = Some \<lparr>ai_title = Some ''Bond issue'', ai_category = Some ''budget'',
        ai_tags = Some [''Finance'', ''Affordable Housing''], ai_meetings = None\<rparr>,
      council_members = Some \<lparr>cm_name = Some ''Sam Lee'', cm_title = None\<rparr>\<rparr>"

definition rec_parks :: VoteRecord where
  "rec_parks =
     \<lparr>vote_id = ''v3'', vote_value = ABSTAIN, created_at = Some ''2024-03-01'',
      agenda_items = Some \<lparr>ai_title = Some ''Trail repair'', ai_category = Some ''Parks'',
        ai_tags = None, ai_meetings = None\<rparr>,
      council_members = Some \<lparr>cm_name = Some ''Jane Doe'', cm_title = Some ''Mayor''\<rparr>\<rparr>"

definition rec_nojoin :: VoteRecord where
  "rec_nojoin =
     \<lparr>vote_id = ''v4'', vote_value = YEA, created_at = None,
      agenda_items = None,
      council_members = Some \<lparr>cm_name = Some ''Sam Lee'', cm_title = None\<rparr>\<rparr>"

definition rec_nocategory :: VoteRecord where
  "rec_nocategory =
     \<lparr>vote_id = ''v5'', vote_value = ABSENT, created_at = None,
      agenda_items = Some \<lparr>ai_title = Some ''Minutes'', ai_category = None,
        ai_tags = None, ai_meetings = None\<rparr>,
      council_members = None\<rparr>"

text \<open>Four votes on one agenda item, two for and two against, and the group that the
  reducer builds from them; groups with a given number of pushed votes.\<close>

definition vote_on :: "string \<Rightarrow> string \<Rightarrow> vote_value \<Rightarrow> VoteRecord" where
  "vote_on item who val =
     \<lparr>vote_id = who @ ''/'' @ item, vote_value = val, created_at = None,
      agenda_items = Some \<lparr>ai_title = Some item, ai_category = Some ''zoning'',
        ai_tags = None, ai_meetings = None\<rparr>,
      council_members = Some \<lparr>cm_name = Some who, cm_title = None\<rparr>\<rparr>"

definition tie_votes :: "VoteRecord list" where
  "tie_votes = [vote_on ''Rezoning'' ''A'' YEA, vote_on ''Rezoning'' ''B'' NAY,
                vote_on ''Rezoning'' ''C'' YEA, vote_on ''Rezoning'' ''D'' NAY]"

definition tie_group :: vote_group where
  "tie_group =
     \<lparr>g_title = ''Rezoning'', g_category = ''zoning'', g_date = None, g_tags = [],
      g_votes = [\<lparr>gv_member_name = ''A'', gv_vote_value = YEA, gv_title = []\<rparr>,
                 \<lparr>gv_member_name = ''B'', gv_vote_value = NAY, gv_title = []\<rparr>,
                 \<lparr>gv_member_name = ''C'', gv_vote_value = YEA, gv_title = []\<rparr>,
                 \<lparr>gv_member_name = ''D'', gv_vote_value = NAY, gv_title = []\<rparr>]\<rparr>"

definition group_of_size :: "nat \<Rightarrow> vote_group" where
  "group_of_size n =
     \<lparr>g_title = ''Budget'', g_category = ''General'', g_date = None, g_tags = [],
      g_votes = replicate n \<lparr>gv_member_name = ''A'', gv_vote_value = YEA, gv_title = []\<rparr>\<rparr>"

subsection \<open>Counts\<close>

text \<open>The number of \<^verbatim>\<open>YEA\<close> votes of a group, as a count of occurrences.\<close>

definition yea_count :: "vote_group \<Rightarrow> nat" where
  "yea_count g = count_list (map gv_vote_value (g_votes g)) YEA"

subsection \<open>Grouping\<close>

text \<open>
  The label under which the category breakdown counts a vote, the sum of the totals of
  all groups of a breakdown, and what a group of the case studies (an entry of the
  breakdown) becomes when the listed votes are added to it one after the other.
\<close>

definition category_label :: "VoteRecord \<Rightarrow> string" where
  "category_label vote = or_default (agenda_category vote) ''Unknown''"

definition sum_totals :: "(string \<times> tally) list \<Rightarrow> nat" where
  "sum_totals cats = sum_list (map (\<lambda>(k, t). total_n t) cats)"

fun absorb_group :: "vote_group option \<Rightarrow> VoteRecord list \<Rightarrow> vote_group option" where
  "absorb_group g [] = g"
| "absorb_group g (v # vs) =
     absorb_group
       (Some (case g of
                None \<Rightarrow> (new_group v)\<lparr>g_votes := [pushed_vote v]\<rparr>
              | Some g' \<Rightarrow> g'\<lparr>g_votes := g_votes g' @ [pushed_vote v]\<rparr>)) vs"

fun absorb_tally :: "tally option \<Rightarrow> VoteRecord list \<Rightarrow> tally option" where
  "absorb_tally t [] = t"
| "absorb_tally t (v # vs) =
     absorb_tally
       (Some (count_vote (vote_value v) (case t of None \<Rightarrow> zero_tally | Some t' \<Rightarrow> t'))) vs"

text \<open>A vote on an agenda item whose title and category are both the word
  "constructor".\<close>

definition rec_constructor :: VoteRecord where
  "rec_constructor =
     \<lparr>vote_id = ''v6'', vote_value = YEA, created_at = None,
      agenda_items = Some \<lparr>ai_title = Some ''constructor'', ai_category = Some ''constructor'',
        ai_tags = None, ai_meetings = None\<rparr>,
      council_members = Some \<lparr>cm_name = Some ''Jane Doe'', cm_title = None\<rparr>\<rparr>"

subsection \<open>Rounding\<close>

text \<open>Rounding an exact ratio to the nearest integer, a half going up.\<close>

definition half_up :: "rat \<Rightarrow> int" where
  "half_up x = \<lfloor>x + 1 / 2\<rfloor>"

text \<open>Forty votes of one member, 23 of them \<^verbatim>\<open>YEA\<close> and 17 \<^verbatim>\<open>NAY\<close>.\<close>

definition votes_23_of_40 :: "VoteRecord list" where
  "votes_23_of_40 =
     replicate 23 (vote_on ''Budget'' ''A'' YEA) @ replicate 17 (vote_on ''Budget'' ''A'' NAY)"

section \<open>Properties of the filter engine\<close>

text \<open>
  Claim C8.  With all four criteria empty, and likewise with the \<^verbatim>\<open>filters\<close> prop
  absent, \<open>applyFilters\<close> returns its input list: the same records in the same order.
\<close>

theorem C8_filter_identity:
  "applyFilters toLowerCase \<lparr>search = [], category = [], member = [], voteValue = []\<rparr> R = R \<and>
   VotesAnalysis_votes toLowerCase None R = R"
  by (simp add: applyFilters_def VotesAnalysis_votes_def VotesAnalysis_filters_def no_filters_def)

lemma includes_str_sublist: "includes_str s sub \<longleftrightarrow> sublist sub s"
  by (induction s) (auto simp: sublist_Cons_right)

lemma lower_includes_ci:
  "lower_includes toLowerCase x (toLowerCase needle) \<longleftrightarrow>
     (\<exists>s. x = Some s \<and> ci_contains toLowerCase s needle)"
  by (cases x) (auto simp: lower_includes_def ci_contains_def includes_str_sublist sublist_def)

lemma applyFilters_conv:
  "applyFilters toLowerCase fs R =
     filter (\<lambda>vote. (search fs = [] \<or>
                        search_cb toLowerCase (toLowerCase (search fs)) vote) \<and>
                     (category fs = [] \<or> category_cb toLowerCase (category fs) vote) \<and>
                     (member fs = [] \<or> member_cb toLowerCase (member fs) vote) \<and>
                     (voteValue fs = [] \<or> voteValue_cb (voteValue fs) vote)) R"
  by (simp add: applyFilters_def Let_def)

lemma includes_ci:
  "includes_str (toLowerCase hay) (toLowerCase needle) \<longleftrightarrow> ci_contains toLowerCase hay needle"
  by (auto simp: ci_contains_def includes_str_sublist sublist_def)

lemma search_cb_spec:
  "search_cb toLowerCase (toLowerCase s) vote \<longleftrightarrow> spec_search toLowerCase s vote"
proof -
  have tags: "(case agenda_tags vote of None \<Rightarrow> False
                | Some ts \<Rightarrow> list_ex (\<lambda>tag. includes_str (toLowerCase tag) (toLowerCase s)) ts)
              \<longleftrightarrow> (\<exists>tag \<in> (case agenda_tags vote of None \<Rightarrow> {} | Some ts \<Rightarrow> set ts).
                      ci_contains toLowerCase tag s)"
    by (cases "agenda_tags vote") (simp_all add: list_ex_iff includes_ci)
  have opt: "(\<exists>x. f = Some x \<and> ci_contains toLowerCase x s) \<longleftrightarrow>
             (\<exists>x \<in> set_option f. ci_contains toLowerCase x s)"
    for f :: "string option"
    by (cases f) simp_all
  show ?thesis
    unfolding search_cb_def spec_search_def search_fields_def lower_includes_ci tags opt
    by blast
qed

lemma category_cb_spec: "category_cb toLowerCase c vote \<longleftrightarrow> spec_category toLowerCase c vote"
  by (cases "agenda_category vote") (simp_all add: category_cb_def spec_category_def ci_equal_def)

lemma member_cb_spec: "member_cb toLowerCase m vote \<longleftrightarrow> spec_member toLowerCase m vote"
  by (simp add: member_cb_def spec_member_def lower_includes_ci)

lemma voteValue_cb_spec: "voteValue_cb wanted vote \<longleftrightarrow> spec_outcome wanted vote"
  by (simp add: voteValue_cb_def spec_outcome_def)

text \<open>Whatever the alphabet, a record is found by a search string that the built-in
  lower-cases to the same string as its title: a title with an accented capital under
  the search for the same word in small letters, for instance.\<close>

lemma search_finds_title_ignoring_case:
  assumes "s \<noteq> []" and "agenda_title vote = Some t" and "toLowerCase t = toLowerCase s"
  shows "applyFilters toLowerCase (only Search s) [vote] = [vote]"
proof -
  have "includes_str (toLowerCase s) (toLowerCase s)"
    by (simp add: includes_str_sublist)
  with assms show ?thesis
    by (simp add: applyFilters_conv only_def no_filters_def search_cb_def lower_includes_def)
qed









lemmas example_records =
  rec_housing_def rec_tagged_def rec_parks_def rec_nojoin_def rec_nocategory_def

lemmas filter_eval =
  applyFilters_def only_def both_def no_filters_def search_cb_def category_cb_def
  member_cb_def voteValue_cb_def lower_includes_def agenda_title_def agenda_category_def
  agenda_tags_def member_name_def toLowerCase_ascii_def toLowerChar_ascii_def letter_pairs_def



text \<open>
  Claim C9.  For two different dimensions with non-empty criteria, filtering by both at
  once is filtering by the first and then by the second, and also by the second and then
  by the first; both are the records that pass the one criterion and the other.  The
  statistics of \<^verbatim>\<open>VotesKPIs\<close>, which filters by the same four blocks, compose in
  the same way.
\<close>

theorem C9_filter_conjunction:
  assumes "d1 \<noteq> d2" and "s1 \<noteq> []" and "s2 \<noteq> []"
  shows "applyFilters toLowerCase (both d1 s1 d2 s2) R =
           applyFilters toLowerCase (only d2 s2) (applyFilters toLowerCase (only d1 s1) R) \<and>
         applyFilters toLowerCase (both d1 s1 d2 s2) R =
           applyFilters toLowerCase (only d1 s1) (applyFilters toLowerCase (only d2 s2) R) \<and>
         applyFilters toLowerCase (both d1 s1 d2 s2) R =
           filter (\<lambda>vote. spec_keeps toLowerCase (only d1 s1) vote \<and>
                          spec_keeps toLowerCase (only d2 s2) vote) R \<and>
         fetchStats toLowerCase (both d1 s1 d2 s2) (Some R) =
           fetchStats toLowerCase (only d2 s2) (Some (applyFilters toLowerCase (only d1 s1) R))"
  using assms
  by (cases d1; cases d2)
     (auto simp: applyFilters_conv both_def only_def no_filters_def spec_keeps_def
        search_cb_spec category_cb_spec member_cb_spec voteValue_cb_spec
        fetchStats_def or_empty_def
        intro!: filter_cong arg_cong [where f = tallyVotes])

theorem C9_filter_conjunction_witness:
  "Search \<noteq> Outcome \<and> ''housing'' \<noteq> [] \<and> ''NAY'' \<noteq> [] \<and>
   applyFilters toLowerCase_ascii (both Search ''housing'' Outcome ''NAY'') [rec_housing, rec_tagged, rec_parks]
     = [rec_tagged] \<and>
   applyFilters toLowerCase_ascii (only Outcome ''NAY'') (applyFilters toLowerCase_ascii (only Search ''housing'')
       [rec_housing, rec_tagged, rec_parks]) = [rec_tagged] \<and>
   applyFilters toLowerCase_ascii (only Search ''housing'') (applyFilters toLowerCase_ascii (only Outcome ''NAY'')
       [rec_housing, rec_tagged, rec_parks]) = [rec_tagged]"
proof -
  let ?R = "[rec_housing, rec_tagged, rec_parks]"
  have e: "applyFilters toLowerCase_ascii (both Search ''housing'' Outcome ''NAY'') ?R = [rec_tagged]"
    by (simp add: filter_eval example_records)
  have h: "Search \<noteq> Outcome" and n1: "''housing'' \<noteq> []" and n2: "''NAY'' \<noteq> []"
    by simp_all
  note c = C9_filter_conjunction [OF h n1 n2, of toLowerCase_ascii ?R]
  note a = c [THEN conjunct1, symmetric]
  note b = c [THEN conjunct2, THEN conjunct1, symmetric]
  from h n1 n2 e a b show ?thesis
    by (simp only: simp_thms)
qed

text \<open>
  Claim C10.  Under a non-empty category criterion, a record whose agenda-item join is
  missing, or whose agenda item has no category, is never in the result, whatever the
  criterion: the default labels "Unknown" and "General" that other components give such
  a record do not select it either.  The list shown by \<^verbatim>\<open>VotesAnalysis\<close> and the
  statistics of \<^verbatim>\<open>VotesKPIs\<close> are what they are without the record.
\<close>

theorem C10_category_excludes_missing:
  assumes "category fs \<noteq> []"
    and "agenda_items vote = None \<or> (\<exists>a. agenda_items vote = Some a \<and> ai_category a = None)"
  shows "vote \<notin> set (applyFilters toLowerCase fs R) \<and>
         applyFilters toLowerCase fs (xs @ vote # ys) = applyFilters toLowerCase fs (xs @ ys) \<and>
         fetchStats toLowerCase fs (Some (xs @ vote # ys)) =
           fetchStats toLowerCase fs (Some (xs @ ys))"
proof -
  from assms(2) have "agenda_category vote = None"
    by (auto simp: agenda_category_def)
  then have "\<not> category_cb toLowerCase (category fs) vote"
    by (simp add: category_cb_def)
  with assms(1) show ?thesis
    by (simp add: applyFilters_conv fetchStats_def or_empty_def)
qed

theorem C10_category_excludes_missing_witness:
  "category (only Category ''Unknown'') \<noteq> [] \<and>
   agenda_items rec_nojoin = None \<and>
   rec_nojoin \<notin> set (applyFilters toLowerCase_ascii (only Category ''Unknown'') [rec_housing, rec_nojoin, rec_nocategory]) \<and>
   category (only Category ''General'') \<noteq> [] \<and>
   (\<exists>a. agenda_items rec_nocategory = Some a \<and> ai_category a = None) \<and>
   rec_nocategory \<notin> set (applyFilters toLowerCase_ascii (only Category ''General'') [rec_housing, rec_nojoin, rec_nocategory])"
proof -
  have c1: "category (only Category ''Unknown'') \<noteq> []"
    and c2: "category (only Category ''General'') \<noteq> []"
    by (simp_all add: only_def no_filters_def)
  have j1: "agenda_items rec_nojoin = None"
    and j2: "\<exists>a. agenda_items rec_nocategory = Some a \<and> ai_category a = None"
    by (simp_all add: example_records)
  note u = C10_category_excludes_missing [OF c1 disjI1 [OF j1], THEN conjunct1]
  note g = C10_category_excludes_missing [OF c2 disjI2 [OF j2], THEN conjunct1]
  from c1 j1 u c2 j2 g show ?thesis
    by (intro conjI)
qed

section \<open>Properties of the aggregation engine\<close>

lemma vote_value_str_simps [simp]:
  "vote_value_str v = ''YEA'' \<longleftrightarrow> v = YEA"
  "vote_value_str v = ''NAY'' \<longleftrightarrow> v = NAY"
  "vote_value_str v = ''ABSTAIN'' \<longleftrightarrow> v = ABSTAIN"
  "vote_value_str v = ''ABSENT'' \<longleftrightarrow> v = ABSENT"
  by (cases v; simp)+

lemma length_filter_count: "length (filter (\<lambda>x. f x = a) xs) = count_list (map f xs) a"
  by (induction xs) simp_all

lemma count_partition:
  "count_list vs YEA + count_list vs NAY + count_list vs ABSTAIN + count_list vs ABSENT = length vs"
proof (induction vs)
  case Nil
  show ?case by simp
next
  case (Cons v vs)
  then show ?case by (cases v) simp_all
qed

text \<open>
  Claim C1, as the code has it.  The total is the length of the list, and \<open>yea\<close>,
  \<open>nay\<close> and \<open>abstain\<close> count exactly the records with that outcome.  There is no
  tally of \<^verbatim>\<open>ABSENT\<close>: the three tallies together with the number of \<^verbatim>\<open>ABSENT\<close>
  records make up the total.  The statistics of \<^verbatim>\<open>VotesKPIs\<close> under empty criteria
  and those of the member profile are these numbers.
\<close>

theorem C1_tallies:
  "total_n (tallyVotes R) = length R \<and>
   yea (tallyVotes R) = count_list (map vote_value R) YEA \<and>
   nay (tallyVotes R) = count_list (map vote_value R) NAY \<and>
   abstain (tallyVotes R) = count_list (map vote_value R) ABSTAIN \<and>
   yea (tallyVotes R) + nay (tallyVotes R) + abstain (tallyVotes R)
     + count_list (map vote_value R) ABSENT = total_n (tallyVotes R) \<and>
   fetchStats toLowerCase no_filters (Some R) = tallyVotes R \<and>
   total_n (fetchMemberData (Some R)) = total_n (tallyVotes R) \<and>
   yea (fetchMemberData (Some R)) = yea (tallyVotes R) \<and>
   nay (fetchMemberData (Some R)) = nay (tallyVotes R) \<and>
   abstain (fetchMemberData (Some R)) = abstain (tallyVotes R)"
proof -
  have "fetchStats toLowerCase no_filters (Some R) = tallyVotes R"
    by (simp add: fetchStats_def or_empty_def applyFilters_def no_filters_def)
  moreover have "total_n (fetchMemberData (Some R)) = total_n (tallyVotes R)"
    "yea (fetchMemberData (Some R)) = yea (tallyVotes R)"
    "nay (fetchMemberData (Some R)) = nay (tallyVotes R)"
    "abstain (fetchMemberData (Some R)) = abstain (tallyVotes R)"
    by (simp_all add: fetchMemberData_def or_empty_def Let_def)
  moreover have "total_n (tallyVotes R) = length R"
    "yea (tallyVotes R) = count_list (map vote_value R) YEA"
    "nay (tallyVotes R) = count_list (map vote_value R) NAY"
    "abstain (tallyVotes R) = count_list (map vote_value R) ABSTAIN"
    by (simp_all add: tallyVotes_def length_filter_count)
  moreover have "yea (tallyVotes R) + nay (tallyVotes R) + abstain (tallyVotes R)
     + count_list (map vote_value R) ABSENT = total_n (tallyVotes R)"
    using count_partition [of "map vote_value R"]
    by (simp add: tallyVotes_def length_filter_count)
  ultimately show ?thesis by (simp only: simp_thms)
qed

text \<open>Claim C1 as stated fails: a single \<^verbatim>\<open>ABSENT\<close> vote gives total 1 while the
  tallies that exist sum to 0, with and without the (empty) filters of \<^verbatim>\<open>VotesKPIs\<close>.\<close>

theorem C1_absent_not_tallied:
  "vote_value rec_nocategory = ABSENT \<and>
   total_n (tallyVotes [rec_nocategory]) = 1 \<and>
   yea (tallyVotes [rec_nocategory]) + nay (tallyVotes [rec_nocategory])
     + abstain (tallyVotes [rec_nocategory]) = 0 \<and>
   fetchStats toLowerCase_ascii no_filters (Some [rec_nocategory])
     = \<lparr>total_n = 1, yea = 0, nay = 0, abstain = 0\<rparr>"
  by (simp add: tallyVotes_def rec_nocategory_def fetchStats_def or_empty_def
        applyFilters_def no_filters_def)

section \<open>Properties of the case-study grouping\<close>

lemma groupVotes_tie: "groupVotes [] tie_votes = Inr [(''Rezoning'', tie_group)]"
  by code_simp

lemma majority_real: "real y > real n / 2 \<longleftrightarrow> n < 2 * y"
  by (simp add: divide_less_eq) linarith

text \<open>
  Claim C3.  The outcome of a case study is "Approved" iff strictly more than half of
  the votes of its group are \<^verbatim>\<open>YEA\<close>, and "Denied" otherwise; a group of four votes
  with two \<^verbatim>\<open>YEA\<close> is "Denied".
\<close>

theorem C3_outcome_majority:
  "(outcome (toStudy g) = ''Approved'' \<longleftrightarrow> length (g_votes g) < 2 * yea_count g) \<and>
   (outcome (toStudy g) = ''Denied'' \<longleftrightarrow> 2 * yea_count g \<le> length (g_votes g)) \<and>
   (length (g_votes g) = 4 \<and> yea_count g = 2 \<longrightarrow> outcome (toStudy g) = ''Denied'')"
  by (auto simp: toStudy_def Let_def yea_count_def length_filter_count majority_real)

text \<open>The tie of the specification's P6, on the group built from four rows.\<close>

theorem C3_outcome_majority_witness:
  "groupVotes [] tie_votes = Inr [(''Rezoning'', tie_group)] \<and>
   length (g_votes tie_group) = 4 \<and> yea_count tie_group = 2 \<and>
   outcome (toStudy tie_group) = ''Denied''"
proof -
  have l: "length (g_votes tie_group) = 4" and y: "yea_count tie_group = 2"
    by (simp_all add: tie_group_def yea_count_def)
  from C3_outcome_majority [of tie_group] l y
  have "outcome (toStudy tie_group) = ''Denied''" by (simp only: simp_thms)
  with groupVotes_tie l y show ?thesis by (simp only: simp_thms)
qed

text \<open>
  Claim C4.  The impact level is "high" iff the group has at least 7 votes, "medium"
  iff it has 5 or 6, and "low" iff it has fewer than 5; so 7, 6 and 4 votes give "high",
  "medium" and "low".
\<close>

theorem C4_impact_thresholds:
  "(impact_level (toStudy g) = ''high'' \<longleftrightarrow> 7 \<le> length (g_votes g)) \<and>
   (impact_level (toStudy g) = ''medium'' \<longleftrightarrow> 5 \<le> length (g_votes g) \<and> length (g_votes g) < 7) \<and>
   (impact_level (toStudy g) = ''low'' \<longleftrightarrow> length (g_votes g) < 5) \<and>
   (length (g_votes g) = 7 \<longrightarrow> impact_level (toStudy g) = ''high'') \<and>
   (length (g_votes g) = 6 \<longrightarrow> impact_level (toStudy g) = ''medium'') \<and>
   (length (g_votes g) = 4 \<longrightarrow> impact_level (toStudy g) = ''low'')"
  by (simp add: toStudy_def Let_def)

theorem C4_impact_thresholds_witness:
  "length (g_votes (group_of_size 7)) = 7 \<and> impact_level (toStudy (group_of_size 7)) = ''high'' \<and>
   length (g_votes (group_of_size 6)) = 6 \<and> impact_level (toStudy (group_of_size 6)) = ''medium'' \<and>
   length (g_votes (group_of_size 4)) = 4 \<and> impact_level (toStudy (group_of_size 4)) = ''low''"
proof -
  have l: "length (g_votes (group_of_size n)) = n" for n
    by (simp add: group_of_size_def)
  note h = C4_impact_thresholds [of "group_of_size 7", THEN conjunct2, THEN conjunct2,
             THEN conjunct2, THEN conjunct1, rule_format, OF l]
  note m = C4_impact_thresholds [of "group_of_size 6", THEN conjunct2, THEN conjunct2,
             THEN conjunct2, THEN conjunct2, THEN conjunct1, rule_format, OF l]
  note w = C4_impact_thresholds [of "group_of_size 4", THEN conjunct2, THEN conjunct2,
             THEN conjunct2, THEN conjunct2, THEN conjunct2, rule_format, OF l]
  from h m w l [of 7] l [of 6] l [of 4] show ?thesis by (simp only: simp_thms)
qed

section \<open>Properties of the category breakdown\<close>

lemma total_count_vote [simp]: "total_n (count_vote x t) = total_n t + 1"
  by (cases x) simp_all

lemma sum_totals_update:
  "map_of cats c = None \<Longrightarrow> sum_totals (AList.update c zero_tally cats) = sum_totals cats"
  by (induction cats) (auto simp: sum_totals_def zero_tally_def split: if_splits)

lemma sum_totals_map_entry:
  "map_of cats c \<noteq> None \<Longrightarrow>
   sum_totals (AList.map_entry c (count_vote x) cats) = sum_totals cats + 1"
  by (induction cats) (auto simp: sum_totals_def split: if_splits)

lemma sum_totals_step:
  "category_label v \<notin> set prototype_keys \<Longrightarrow>
   sum_totals (categoryStep cats v) = sum_totals cats + 1"
  by (simp add: categoryStep_def Let_def category_label_def sum_totals_update
        sum_totals_map_entry update_conv')

lemma sum_totals_step_proto:
  "category_label v \<in> set prototype_keys \<Longrightarrow> categoryStep cats v = cats"
  by (simp add: categoryStep_def Let_def category_label_def)

lemma sum_totals_foldl:
  "sum_totals (foldl categoryStep cats R)
     = sum_totals cats + length (filter (\<lambda>v. category_label v \<notin> set prototype_keys) R)"
proof (induction R arbitrary: cats)
  case Nil
  show ?case by simp
next
  case (Cons v R)
  show ?case
  proof (cases "category_label v \<in> set prototype_keys")
    case True
    then show ?thesis using Cons.IH [of cats] by (simp add: sum_totals_step_proto)
  next
    case False
    then show ?thesis using Cons.IH [of "categoryStep cats v"] by (simp add: sum_totals_step)
  qed
qed

lemma categoryBreakdown_totals:
  "sum_totals (categoryBreakdown R)
     = length (filter (\<lambda>v. category_label v \<notin> set prototype_keys) R)"
  unfolding categoryBreakdown_def sum_totals_foldl by (simp add: sum_totals_def)

lemma categoryStep_map_of:
  "map_of (categoryStep cats v) c =
     (if c = category_label v \<and> c \<notin> set prototype_keys
      then Some (count_vote (vote_value v) (case map_of cats c of None \<Rightarrow> zero_tally | Some t \<Rightarrow> t))
      else map_of cats c)"
  by (auto simp: categoryStep_def Let_def category_label_def map_of_map_entry update_conv'
        split: option.splits)

lemma categoryBreakdown_map_of:
  "map_of (foldl categoryStep cats R) c =
     (if c \<in> set prototype_keys then map_of cats c
      else absorb_tally (map_of cats c) (filter (\<lambda>v. category_label v = c) R))"
proof (induction R arbitrary: cats)
  case Nil
  show ?case by simp
next
  case (Cons v R)
  show ?case
    unfolding foldl_Cons Cons.IH [of "categoryStep cats v"] categoryStep_map_of
    by simp
qed

text \<open>
  Claim C6 says that the breakdown counts every record in exactly one group, a missing or
  empty category under "Unknown", so that the totals of the groups sum to the number of
  records.  The code does so for every label that is not a name found on
  \<^verbatim>\<open>Object.prototype\<close> (\<open>categoryBreakdown_totals\<close>).  A vote whose category is
  "constructor" is counted in no group: alone it leaves the breakdown empty, and among
  three votes the totals sum to 2.
\<close>

theorem C6_prototype_label_uncounted:
  "agenda_category rec_constructor = Some ''constructor'' \<and>
   categoryBreakdown [rec_constructor] = [] \<and>
   categoryBreakdown [rec_housing, rec_constructor, rec_nojoin] =
     [(''Housing'', \<lparr>total_n = 1, yea = 1, nay = 0, abstain = 0\<rparr>),
      (''Unknown'', \<lparr>total_n = 1, yea = 1, nay = 0, abstain = 0\<rparr>)] \<and>
   sum_totals (categoryBreakdown [rec_housing, rec_constructor, rec_nojoin]) = 2 \<and>
   length [rec_housing, rec_constructor, rec_nojoin] = 3"
  by (simp add: categoryBreakdown_def categoryStep_def sum_totals_def zero_tally_def
        rec_constructor_def rec_housing_def rec_nojoin_def agenda_category_def
        or_default_def prototype_keys_def Let_def)

section \<open>Records whose agenda-item join is missing\<close>

lemma g_votes_new_group [simp]: "g_votes (new_group v) = []"
  by (simp add: new_group_def)

lemma groupStep_map_of:
  "groupStep gs v = Inr gs' \<Longrightarrow>
   map_of gs' t =
     (if t = group_key v
      then Some (case map_of gs t of
                   None \<Rightarrow> (new_group v)\<lparr>g_votes := [pushed_vote v]\<rparr>
                 | Some g \<Rightarrow> g\<lparr>g_votes := g_votes g @ [pushed_vote v]\<rparr>)
      else map_of gs t)"
  by (auto simp: groupStep_def Let_def map_of_map_entry update_conv'
        split: option.splits if_splits)

lemma groupStep_Inr_iff:
  "(\<exists>gs'. groupStep gs v = Inr gs') \<longleftrightarrow> group_key v \<notin> set prototype_keys"
  by (auto simp: groupStep_def Let_def)

lemma groupVotes_Inr_iff:
  "(\<exists>gs'. groupVotes gs R = Inr gs') \<longleftrightarrow> (\<forall>v \<in> set R. group_key v \<notin> set prototype_keys)"
proof (induction R arbitrary: gs)
  case Nil
  show ?case by simp
next
  case (Cons v R)
  show ?case
  proof (cases "groupStep gs v")
    case (Inl e)
    with groupStep_Inr_iff [of gs v] show ?thesis by simp
  next
    case (Inr gs1)
    with groupStep_Inr_iff [of gs v] Cons.IH [of gs1] show ?thesis by simp
  qed
qed

lemma groupVotes_map_of:
  "groupVotes gs R = Inr gs' \<Longrightarrow>
   map_of gs' t = absorb_group (map_of gs t) (filter (\<lambda>v. group_key v = t) R)"
proof (induction R arbitrary: gs)
  case Nil
  then show ?case by simp
next
  case (Cons v R)
  from Cons.prems obtain gs1 where s: "groupStep gs v = Inr gs1" and r: "groupVotes gs1 R = Inr gs'"
    by (auto split: sum.splits)
  from Cons.IH [OF r] groupStep_map_of [OF s, of t] show ?case
    by simp
qed

lemma unknown_not_prototype [simp]: "''Unknown'' \<notin> set prototype_keys"
  by (simp add: prototype_keys_def)

lemma absorb_group_Some:
  "\<exists>g'. absorb_group (Some g) vs = Some g' \<and> set (g_votes g) \<subseteq> set (g_votes g')"
proof (induction vs arbitrary: g)
  case Nil
  show ?case by simp
next
  case (Cons v vs)
  from Cons.IH [of "g\<lparr>g_votes := g_votes g @ [pushed_vote v]\<rparr>"] show ?case
    by auto
qed

lemma absorb_group_contains:
  "v \<in> set vs \<Longrightarrow> \<exists>g. absorb_group start vs = Some g \<and> pushed_vote v \<in> set (g_votes g)"
proof (induction vs arbitrary: start)
  case Nil
  then show ?case by simp
next
  case (Cons w ws)
  let ?g = "case start of
              None \<Rightarrow> (new_group w)\<lparr>g_votes := [pushed_vote w]\<rparr>
            | Some g' \<Rightarrow> g'\<lparr>g_votes := g_votes g' @ [pushed_vote w]\<rparr>"
  show ?case
  proof (cases "v = w")
    case True
    have "pushed_vote w \<in> set (g_votes ?g)"
      by (cases start) simp_all
    with absorb_group_Some [of ?g ws] True show ?thesis
      by auto
  next
    case False
    with Cons.prems have "v \<in> set ws" by simp
    from Cons.IH [OF this, of "Some ?g"] show ?thesis by simp
  qed
qed

lemma missing_join_fields:
  assumes "agenda_items vote = None"
  shows "agenda_title vote = None" and "agenda_category vote = None"
    and "agenda_date vote = None" and "agenda_tags vote = None"
  using assms
  by (simp_all add: agenda_title_def agenda_category_def agenda_date_def agenda_tags_def)

lemma missing_join_grouping:
  assumes j: "agenda_items vote = None" and ok: "groupVotes [] (xs @ ys) = Inr gs0"
  shows "\<exists>gs1 g. groupVotes [] (xs @ vote # ys) = Inr gs1 \<and>
           (\<forall>t. t \<noteq> ''Unknown'' \<longrightarrow> map_of gs1 t = map_of gs0 t) \<and>
           map_of gs1 ''Unknown'' = Some g \<and> pushed_vote vote \<in> set (g_votes g)"
proof -
  have k: "group_key vote = ''Unknown''"
    by (simp add: group_key_def missing_join_fields [OF j] or_default_def)
  from ok groupVotes_Inr_iff [of "[]" "xs @ ys"]
  have "\<forall>v \<in> set (xs @ ys). group_key v \<notin> set prototype_keys" by blast
  with k have "\<forall>v \<in> set (xs @ vote # ys). group_key v \<notin> set prototype_keys" by simp
  with groupVotes_Inr_iff [of "[]" "xs @ vote # ys"]
  obtain gs1 where g1: "groupVotes [] (xs @ vote # ys) = Inr gs1" by blast
  have others: "map_of gs1 t = map_of gs0 t" if "t \<noteq> ''Unknown''" for t
    using that k groupVotes_map_of [OF g1, of t] groupVotes_map_of [OF ok, of t] by auto
  have "vote \<in> set (filter (\<lambda>v. group_key v = ''Unknown'') (xs @ vote # ys))"
    using k by simp
  from absorb_group_contains [OF this, of None] groupVotes_map_of [OF g1, of "''Unknown''"]
  obtain g where "map_of gs1 ''Unknown'' = Some g" and "pushed_vote vote \<in> set (g_votes g)"
    by auto
  with g1 others show ?thesis by blast
qed

lemma missing_join_categories:
  assumes j: "agenda_items vote = None"
  shows "category_label vote = ''Unknown''"
    and "t \<noteq> ''Unknown'' \<Longrightarrow>
         map_of (categoryBreakdown (xs @ vote # ys)) t = map_of (categoryBreakdown (xs @ ys)) t"
    and "sum_totals (categoryBreakdown (xs @ vote # ys)) = sum_totals (categoryBreakdown (xs @ ys)) + 1"
proof -
  show k: "category_label vote = ''Unknown''"
    by (simp add: category_label_def missing_join_fields [OF j] or_default_def)
  show "map_of (categoryBreakdown (xs @ vote # ys)) t = map_of (categoryBreakdown (xs @ ys)) t"
    if "t \<noteq> ''Unknown''"
    unfolding categoryBreakdown_def categoryBreakdown_map_of using that k by auto
  show "sum_totals (categoryBreakdown (xs @ vote # ys)) = sum_totals (categoryBreakdown (xs @ ys)) + 1"
    unfolding categoryBreakdown_def sum_totals_foldl using k by simp
qed

text \<open>
  Claim C7, as the code has it.  A vote whose agenda-item join is missing makes no
  computation fail, and the other records are processed as without it:
  the case-study reducer accepts it and files it under the title "Unknown" (a group it
  opens gets the category "General"), and the groups of all other titles are the same
  with and without it; the category breakdown counts it under "Unknown" and leaves the
  other categories as they are; the member list shows it with title "Unknown", date
  "Unknown" and category "General"; the vote list shows the title "Unknown Agenda Item";
  the tallies count it once; the filter treats each record on its own.
\<close>

theorem C7_missing_join:
  assumes "agenda_items vote = None"
  shows "group_key vote = ''Unknown'' \<and> g_title (new_group vote) = ''Unknown'' \<and>
         g_category (new_group vote) = ''General'' \<and>
         (\<exists>gs'. groupStep gs vote = Inr gs') \<and>
         (\<forall>gs0. groupVotes [] (xs @ ys) = Inr gs0 \<longrightarrow>
            (\<exists>gs1 g. groupVotes [] (xs @ vote # ys) = Inr gs1 \<and>
               (\<forall>t. t \<noteq> ''Unknown'' \<longrightarrow> map_of gs1 t = map_of gs0 t) \<and>
               map_of gs1 ''Unknown'' = Some g \<and> pushed_vote vote \<in> set (g_votes g))) \<and>
         category_label vote = ''Unknown'' \<and>
         (\<forall>t. t \<noteq> ''Unknown'' \<longrightarrow>
            map_of (categoryBreakdown (xs @ vote # ys)) t = map_of (categoryBreakdown (xs @ ys)) t) \<and>
         sum_totals (categoryBreakdown (xs @ vote # ys))
           = sum_totals (categoryBreakdown (xs @ ys)) + 1 \<and>
         recentVotes (Some [vote]) =
           [\<lparr>rv_id = vote_id vote, rv_vote_value = vote_value vote,
             agenda_item_title = ''Unknown'', rv_date = ''Unknown'', rv_category = ''General''\<rparr>] \<and>
         shown_title vote = ''Unknown Agenda Item'' \<and>
         total_n (tallyVotes (xs @ vote # ys)) = total_n (tallyVotes (xs @ ys)) + 1 \<and>
         applyFilters toLowerCase fs (xs @ vote # ys)
           = applyFilters toLowerCase fs xs @ applyFilters toLowerCase fs [vote]
               @ applyFilters toLowerCase fs ys"
proof -
  note f = missing_join_fields [OF assms]
  have k: "group_key vote = ''Unknown''"
    by (simp add: group_key_def f or_default_def)
  have n: "g_title (new_group vote) = ''Unknown''" "g_category (new_group vote) = ''General''"
    by (simp_all add: new_group_def k f or_default_def)
  have s: "\<exists>gs'. groupStep gs vote = Inr gs'"
    by (simp add: groupStep_Inr_iff k)
  have r: "recentVotes (Some [vote]) =
           [\<lparr>rv_id = vote_id vote, rv_vote_value = vote_value vote,
             agenda_item_title = ''Unknown'', rv_date = ''Unknown'', rv_category = ''General''\<rparr>]"
    by (simp add: recentVotes_def or_empty_def f or_default_def)
  have d: "shown_title vote = ''Unknown Agenda Item''"
    by (simp add: shown_title_def f or_default_def)
  have t: "total_n (tallyVotes (xs @ vote # ys)) = total_n (tallyVotes (xs @ ys)) + 1"
    by (simp add: tallyVotes_def)
  have a: "applyFilters toLowerCase fs (xs @ vote # ys)
             = applyFilters toLowerCase fs xs @ applyFilters toLowerCase fs [vote]
                 @ applyFilters toLowerCase fs ys"
    by (simp add: applyFilters_conv)
  from k n s r d t a missing_join_grouping [OF assms] missing_join_categories [OF assms]
  show ?thesis by (intro conjI allI impI) assumption+
qed

theorem C7_missing_join_witness:
  "agenda_items rec_nojoin = None \<and> ''Trail repair'' \<noteq> ''Unknown'' \<and>
   (\<exists>gs0 gs1 g.
      groupVotes [] ([rec_housing] @ [rec_parks]) = Inr gs0 \<and>
      groupVotes [] ([rec_housing] @ rec_nojoin # [rec_parks]) = Inr gs1 \<and>
      map_of gs1 ''Trail repair'' = map_of gs0 ''Trail repair'' \<and>
      map_of gs1 ''Unknown'' = Some g \<and> pushed_vote rec_nojoin \<in> set (g_votes g)) \<and>
   shown_title rec_nojoin = ''Unknown Agenda Item''"
proof -
  have j: "agenda_items rec_nojoin = None"
    by (simp add: rec_nojoin_def)
  have ne: "''Trail repair'' \<noteq> ''Unknown''"
    by simp
  have keys: "\<forall>v \<in> set ([rec_housing] @ [rec_parks]). group_key v \<notin> set prototype_keys"
    by (simp add: group_key_def agenda_title_def or_default_def prototype_keys_def
          rec_housing_def rec_parks_def)
  have "\<exists>gs0. groupVotes [] ([rec_housing] @ [rec_parks]) = Inr gs0"
    by (rule groupVotes_Inr_iff [THEN iffD2, OF keys])
  then obtain gs0 where ok: "groupVotes [] ([rec_housing] @ [rec_parks]) = Inr gs0" ..
  note c = C7_missing_join [OF j, of "[]" "[rec_housing]" "[rec_parks]"]
  note grouping = c [THEN conjunct2, THEN conjunct2, THEN conjunct2, THEN conjunct2,
                     THEN conjunct1, rule_format, OF ok]
  note shown = c [THEN conjunct2, THEN conjunct2, THEN conjunct2, THEN conjunct2,
                  THEN conjunct2, THEN conjunct2, THEN conjunct2, THEN conjunct2,
                  THEN conjunct2, THEN conjunct1]
  from grouping obtain gs1 g where
    a: "groupVotes [] ([rec_housing] @ rec_nojoin # [rec_parks]) = Inr gs1" and
    b: "\<forall>t. t \<noteq> ''Unknown'' \<longrightarrow> map_of gs1 t = map_of gs0 t" and
    u: "map_of gs1 ''Unknown'' = Some g" and
    p: "pushed_vote rec_nojoin \<in> set (g_votes g)"
    by (elim exE conjE)
  from b [rule_format, OF ne] have b': "map_of gs1 ''Trail repair'' = map_of gs0 ''Trail repair''" .
  from ok a b' u p
  have "\<exists>gs0 gs1 g.
      groupVotes [] ([rec_housing] @ [rec_parks]) = Inr gs0 \<and>
      groupVotes [] ([rec_housing] @ rec_nojoin # [rec_parks]) = Inr gs1 \<and>
      map_of gs1 ''Trail repair'' = map_of gs0 ''Trail repair'' \<and>
      map_of gs1 ''Unknown'' = Some g \<and> pushed_vote rec_nojoin \<in> set (g_votes g)"
    by (intro exI conjI)
  with j ne shown show ?thesis
    by (intro conjI)
qed

text \<open>Claim C7 as stated fails: the case study made from a vote without agenda item
  has the title "Unknown", not "Unknown Agenda Item", and the category "General", not
  "Unknown".\<close>

theorem C7_default_labels_differ:
  "agenda_items rec_nojoin = None \<and>
   studies (Some [rec_nojoin]) =
     Inr [\<lparr>cs_id = ''Unknown'', cs_title = ''Unknown'', cs_category = ''General'',
           cs_date = None, outcome = ''Approved'', impact_level = ''low'',
           cs_votes = [\<lparr>gv_member_name = ''Sam Lee'', gv_vote_value = YEA, gv_title = []\<rparr>],
           cs_tags = []\<rparr>] \<and>
   ''Unknown'' \<noteq> ''Unknown Agenda Item'' \<and> ''General'' \<noteq> ''Unknown''"
  by (simp add: rec_nojoin_def studies_def or_empty_def groupStep_def group_key_def
        new_group_def pushed_vote_def or_default_def agenda_title_def agenda_category_def
        agenda_date_def agenda_tags_def member_name_def member_title_def prototype_keys_def
        toStudy_def Let_def)

section \<open>Properties of the percentages\<close>

declare bit_length.simps [simp del]

lemma bit_length_pos: "0 < n \<Longrightarrow> 1 \<le> bit_length n"
  by (induction n rule: bit_length.induct) (subst bit_length.simps, simp add: bit_length.simps)

lemma bit_length_bounds:
  "0 < n \<Longrightarrow> 2 ^ nat (bit_length n - 1) \<le> n \<and> n < 2 ^ nat (bit_length n)"
proof (induction n rule: bit_length.induct)
  case (1 n)
  show ?case
  proof (cases "n = 1")
    case True
    then show ?thesis by (simp add: bit_length.simps)
  next
    case False
    with "1.prems" have h: "0 < n div 2" by simp
    from "1.IH" h "1.prems"
    have ih: "2 ^ nat (bit_length (n div 2) - 1) \<le> n div 2" "n div 2 < 2 ^ nat (bit_length (n div 2))"
      by simp_all
    from bit_length_pos [OF h] have p: "1 \<le> bit_length (n div 2)" .
    have e: "bit_length n = 1 + bit_length (n div 2)"
      using "1.prems" by (subst bit_length.simps) simp
    from p have n1: "nat (bit_length n - 1) = Suc (nat (bit_length (n div 2) - 1))"
      and n2: "nat (bit_length n) = Suc (nat (bit_length (n div 2)))"
      unfolding e by simp_all
    from ih show ?thesis unfolding n1 n2 by simp linarith
  qed
qed

lemma powi_nat: "0 \<le> k \<Longrightarrow> (2::rat) powi k = 2 ^ nat k"
  by (simp add: power_int_def)

lemma int_bounds_rat:
  assumes "0 < n"
  shows "(2::rat) powi (bit_length n - 1) \<le> of_int n" and "(of_int n :: rat) < 2 powi bit_length n"
proof -
  from bit_length_pos [OF assms] have p: "0 \<le> bit_length n - 1" "0 \<le> bit_length n" by simp_all
  from bit_length_bounds [OF assms]
  have a: "2 ^ nat (bit_length n - 1) \<le> n" and b: "n < 2 ^ nat (bit_length n)" by simp_all
  from a have "(of_int (2 ^ nat (bit_length n - 1)) :: rat) \<le> of_int n"
    by (simp only: of_int_le_iff)
  then show "(2::rat) powi (bit_length n - 1) \<le> of_int n"
    by (simp add: powi_nat [OF p(1)])
  from b have "(of_int n :: rat) < of_int (2 ^ nat (bit_length n))"
    by (simp only: of_int_less_iff)
  then show "(of_int n :: rat) < 2 powi bit_length n"
    by (simp add: powi_nat [OF p(2)])
qed

text \<open>The model of rounding is the intended one: \<open>exponent q\<close> is the binary exponent of
  \<open>q\<close>, and \<open>binary64 q\<close> is within half a unit in the last place of \<open>q\<close>.\<close>

lemma exponent_bounds:
  assumes "0 < q"
  shows "2 powi exponent q \<le> q \<and> q < 2 powi (exponent q + 1)"
proof -
  obtain n d where nd: "quotient_of q = (n, d)" by (cases "quotient_of q")
  from quotient_of_denom_pos [OF nd] have d: "0 < d" .
  from quotient_of_div [OF nd] have q: "q = of_int n / of_int d" .
  from assms d q have n: "0 < n" by (simp add: zero_less_divide_iff)
  let ?k = "bit_length n - bit_length d"
  note bn = int_bounds_rat [OF n] and bd = int_bounds_rat [OF d]
  have dpos: "(0::rat) < of_int d" using d by simp
  have lo: "2 powi (?k - 1) < q"
  proof -
    have "2 powi (?k - 1) = (2::rat) powi (bit_length n - 1) / 2 powi bit_length d"
      by (simp add: power_int_diff)
    also have "\<dots> \<le> of_int n / 2 powi bit_length d"
      using bn(1) by (simp add: divide_right_mono)
    also have "\<dots> < of_int n / of_int d"
      using bd(2) n dpos by (simp add: divide_strict_left_mono)
    finally show ?thesis by (simp add: q)
  qed
  have hi: "q < 2 powi (?k + 1)"
  proof -
    have "q < 2 powi bit_length n / of_int d"
      unfolding q using bn(2) dpos by (simp add: divide_strict_right_mono)
    also have "\<dots> \<le> 2 powi bit_length n / 2 powi (bit_length d - 1)"
      using bd(1) by (intro frac_le) simp_all
    also have "\<dots> = 2 powi (?k + 1)"
      by (simp add: power_int_diff power_int_add)
    finally show ?thesis .
  qed
  show ?thesis
  proof (cases "2 powi ?k \<le> q")
    case True
    then have "exponent q = ?k" by (simp add: exponent_def nd)
    with True hi show ?thesis by simp
  next
    case False
    then have "exponent q = ?k - 1" by (simp add: exponent_def nd)
    with False lo show ?thesis by simp
  qed
qed

lemma round_even_near: "\<bar>of_int (round_even m) - m\<bar> \<le> 1 / 2"
proof -
  have "of_int \<lfloor>m\<rfloor> \<le> m" and "m < of_int \<lfloor>m\<rfloor> + 1"
    by linarith+
  then show ?thesis
    by (auto simp: round_even_def Let_def abs_le_iff)
qed

lemma binary64_near:
  assumes "0 < q"
  shows "\<bar>binary64 q - q\<bar> \<le> 2 powi (exponent q - 53)"
proof -
  let ?u = "(2::rat) powi (exponent q - 52)"
  have u: "0 < ?u" by simp
  have "binary64 q - q = (of_int (round_even (q / ?u)) - q / ?u) * ?u"
    using assms by (simp add: binary64_def Let_def algebra_simps)
  then have "\<bar>binary64 q - q\<bar> = \<bar>of_int (round_even (q / ?u)) - q / ?u\<bar> * ?u"
    by (simp add: abs_mult)
  also have "\<dots> \<le> 1 / 2 * ?u"
    using round_even_near [of "q / ?u"] by (intro mult_right_mono) simp_all
  also have "\<dots> = 2 powi (exponent q - 53)"
  proof -
    have "(2::rat) powi (exponent q - 52) = 2 powi (exponent q - 53 + 1)" by simp
    also have "\<dots> = 2 powi (exponent q - 53) * 2"
      by (subst power_int_add) simp_all
    finally show ?thesis by simp
  qed
  finally show ?thesis .
qed

text \<open>The part of claim C5 that holds: without votes every count and every percentage
  is 0, and so is the percentage of any statistics whose total is 0.\<close>

lemma approvalRate_zero: "total_n stats = 0 \<Longrightarrow> approvalRate stats = 0"
  by (simp add: approvalRate_def)

lemma empty_statistics:
  "tallyVotes [] = \<lparr>total_n = 0, yea = 0, nay = 0, abstain = 0\<rparr>"
  "approvalRate (fetchMemberData (Some [])) = 0"
  "approvalRate (fetchMemberData None) = 0"
  "memberVotingStats (Some []) =
     \<lparr>total_votes = 0, yea_votes = 0, nay_votes = 0, abstain_votes = 0,
      yea_percentage = 0, voting_frequency = 0\<rparr>"
  by (simp_all add: tallyVotes_def approvalRate_def fetchMemberData_def memberVotingStats_def
        or_empty_def Let_def)

text \<open>Scenario A of the specification: 2 of 3 is 67 percent, 1 of 3 is 33 percent.\<close>

lemma percentage_thirds: "percentage 2 3 = 67" "percentage 1 3 = 33" "percentage 0 3 = 0"
  by code_simp+

lemma percentage_23_40: "percentage 23 40 = 57"
  by code_simp

lemma tally_23_of_40:
  "tallyVotes votes_23_of_40 = \<lparr>total_n = 40, yea = 23, nay = 17, abstain = 0\<rparr>"
  by (simp add: tallyVotes_def votes_23_of_40_def vote_on_def)

text \<open>
  Claim C5 says that a percentage is \<open>100 * count / total\<close> rounded half-up (and 0
  when the total is 0).  The code computes \<^verbatim>\<open>Math.round((count / total) * 100)\<close> in
  floating point: for 23 \<^verbatim>\<open>YEA\<close> votes out of 40 the quotient 0.575 has no exact
  binary64 value, the product is 57.49999999999999 and the percentage shown is 57,
  where the exact ratio 57.5 rounds half-up to 58.
\<close>

theorem C5_percentage_23_of_40:
  "total_n (fetchMemberData (Some votes_23_of_40)) = 40 \<and>
   yea (fetchMemberData (Some votes_23_of_40)) = 23 \<and>
   approvalRate (fetchMemberData (Some votes_23_of_40)) = 57 \<and>
   yea_percentage (memberVotingStats (Some votes_23_of_40)) = 57 \<and>
   half_up (100 * 23 / 40) = 58"
proof -
  have l: "length votes_23_of_40 = 40"
    and y: "length (filter (\<lambda>v. vote_value v = YEA) votes_23_of_40) = 23"
    and ne: "votes_23_of_40 \<noteq> []"
    by (simp_all add: votes_23_of_40_def vote_on_def)
  have m: "yea_percentage (memberVotingStats (Some votes_23_of_40)) = 57"
    by (simp add: memberVotingStats_def or_empty_def Let_def l y ne percentage_23_40)
  have h: "half_up (100 * 23 / 40) = 58"
    by (simp add: half_up_def)
  from m h show ?thesis
    by (simp add: fetchMemberData_def or_empty_def Let_def tally_23_of_40 approvalRate_def
          percentage_23_40)
qed

end
